theory Spec2Isabelle
  imports Main "HOL-Library.AList"
begin

section \<open>Python values and exceptions\<close>

text \<open>
  The values that \<^verbatim>\<open>json.loads\<close> returns and that the attributes of the network objects
  hold. Python's \<^verbatim>\<open>None\<close> is \<open>JNull\<close>. A \<^verbatim>\<open>dict\<close> is an association list in
  insertion order with distinct keys.
\<close>

datatype json = JNull | JBool bool | JNum int | JStr string
  | JArr "json list" | JObj "(string \<times> json) list"

text \<open>The exceptions that the modelled code can raise.\<close>

datatype error = AttributeError | JSONDecodeError | KeyError | IndexError | TypeError
  | AssertionError | IssueCommandError

definition and_then :: "error + 'a \<Rightarrow> ('a \<Rightarrow> error + 'b) \<Rightarrow> error + 'b" where
  "and_then r f = (case r of Inl e \<Rightarrow> Inl e | Inr x \<Rightarrow> f x)"

text \<open>\<^verbatim>\<open>obj[key]\<close> for a string key.\<close>

definition getitem :: "json \<Rightarrow> string \<Rightarrow> error + json" where
  "getitem obj k = (case obj of
       JObj kvs \<Rightarrow> (case map_of kvs k of None \<Rightarrow> Inl KeyError | Some v \<Rightarrow> Inr v)
     | _ \<Rightarrow> Inl TypeError)"

text \<open>\<^verbatim>\<open>obj[0]\<close>: the first element of a list, the first character of a string.\<close>

definition getitem0 :: "json \<Rightarrow> error + json" where
  "getitem0 obj = (case obj of
       JArr xs \<Rightarrow> (case xs of [] \<Rightarrow> Inl IndexError | x # _ \<Rightarrow> Inr x)
     | JStr s \<Rightarrow> (case s of [] \<Rightarrow> Inl IndexError | c # _ \<Rightarrow> Inr (JStr [c]))
     | JObj kvs \<Rightarrow> Inl KeyError
     | _ \<Rightarrow> Inl TypeError)"

text \<open>Truthiness of an optional integer and of an optional string: \<^verbatim>\<open>None\<close>, \<^verbatim>\<open>0\<close> and
  the empty string are false.\<close>

definition truthy_int :: "int option \<Rightarrow> bool" where
  "truthy_int x = (case x of None \<Rightarrow> False | Some i \<Rightarrow> i \<noteq> 0)"

definition truthy_str :: "string option \<Rightarrow> bool" where
  "truthy_str x = (case x of None \<Rightarrow> False | Some s \<Rightarrow> s \<noteq> [])"

text \<open>\<^verbatim>\<open>x or d\<close> for an optional string \<^verbatim>\<open>x\<close> and a string \<^verbatim>\<open>d\<close>.\<close>

definition or_else :: "string option \<Rightarrow> string \<Rightarrow> string" where
  "or_else x d = (case x of None \<Rightarrow> d | Some s \<Rightarrow> if s \<noteq> [] then s else d)"

text \<open>\<^verbatim>\<open>x in xs\<close> for a list of strings: a value that is not a string equals none of them.\<close>

definition py_in :: "json \<Rightarrow> string list \<Rightarrow> bool" where
  "py_in x xs = (case x of JStr s \<Rightarrow> List.member xs s | _ \<Rightarrow> False)"

subsection \<open>\<^verbatim>\<open>str\<close> of an integer\<close>

definition digit_char :: "nat \<Rightarrow> char" where
  "digit_char d = char_of (48 + d)"

fun nat_digits :: "nat \<Rightarrow> string" where
  "nat_digits n = (if n < 10 then [digit_char n]
     else nat_digits (n div 10) @ [digit_char (n mod 10)])"

declare nat_digits.simps [simp del]

definition py_str_int :: "int \<Rightarrow> string" where
  "py_str_int i = (if i < 0 then CHR ''-'' # nat_digits (nat (- i)) else nat_digits (nat i))"

definition py_str :: "int option \<Rightarrow> string" where
  "py_str x = (case x of None \<Rightarrow> ''None'' | Some i \<Rightarrow> py_str_int i)"

section \<open>\<^verbatim>\<open>json.loads\<close>\<close>

text \<open>
  The decoder of the standard library, on the fragment of JSON that the network code
  produces and reads: objects, arrays, strings without escape sequences, integers,
  \<^verbatim>\<open>null\<close>, \<^verbatim>\<open>true\<close> and \<^verbatim>\<open>false\<close>, separated by blanks. A duplicate key keeps its first
  position and takes the last value, as a Python \<^verbatim>\<open>dict\<close> does. Text outside the fragment
  (escape sequences, fractions and exponents, \<^verbatim>\<open>NaN\<close>, \<^verbatim>\<open>Infinity\<close>) is rejected by the
  model; the theorems below use the decoder only on text inside the fragment.

  The text is first cut into tokens by one pass over the characters, then the tokens are
  parsed by recursive descent.
\<close>

datatype token = TLBrace | TRBrace | TLBrack | TRBrack | TColon | TComma
  | TStr string | TNum int | TNull | TTrue | TFalse

definition is_ws :: "char \<Rightarrow> bool" where
  "is_ws c = (c = CHR '' '' \<or> c = CHR 0x09 \<or> c = CHR 0x0A \<or> c = CHR 0x0D)"

definition is_digit :: "char \<Rightarrow> bool" where
  "is_digit c = (48 \<le> (of_char c :: nat) \<and> (of_char c :: nat) \<le> 57)"

definition is_letter :: "char \<Rightarrow> bool" where
  "is_letter c = ((65 \<le> (of_char c :: nat) \<and> (of_char c :: nat) \<le> 90)
     \<or> (97 \<le> (of_char c :: nat) \<and> (of_char c :: nat) \<le> 122))"

definition digit_val :: "char \<Rightarrow> nat" where
  "digit_val c = of_char c - 48"

definition digits_val :: "string \<Rightarrow> nat" where
  "digits_val ds = foldl (\<lambda>a c. 10 * a + digit_val c) 0 ds"

text \<open>An unsigned integer literal: digits, with no leading zero unless it is \<^verbatim>\<open>0\<close> itself.\<close>

definition nat_lit :: "string \<Rightarrow> nat option" where
  "nat_lit ds = (if ds = [] then None
     else if list_all is_digit ds
       then (if hd ds = CHR ''0'' \<and> tl ds \<noteq> [] then None else Some (digits_val ds))
       else None)"

definition int_lit :: "string \<Rightarrow> int option" where
  "int_lit s = (case s of
       [] \<Rightarrow> None
     | c # cs \<Rightarrow> if c = CHR ''-'' then map_option (\<lambda>n. - int n) (nat_lit cs)
                else map_option int (nat_lit s))"

definition word_lit :: "string \<Rightarrow> token option" where
  "word_lit w = (if w = ''null'' then Some TNull else if w = ''true'' then Some TTrue
     else if w = ''false'' then Some TFalse else None)"

definition punct :: "char \<Rightarrow> token option" where
  "punct c = (if c = CHR ''{'' then Some TLBrace else if c = CHR ''}'' then Some TRBrace
     else if c = CHR ''['' then Some TLBrack else if c = CHR '']'' then Some TRBrack
     else if c = CHR '':'' then Some TColon else if c = CHR '','' then Some TComma
     else None)"

datatype lexmode = Top | InString string | InNumber string | InWord string

text \<open>What a character outside any token starts: the tokens it completes and the mode
  for the characters after it.\<close>

definition top_step :: "char \<Rightarrow> (token list \<times> lexmode) option" where
  "top_step c =
     (if is_ws c then Some ([], Top)
      else if c = CHR 0x22 then Some ([], InString [])
      else if c = CHR ''-'' \<or> is_digit c then Some ([], InNumber [c])
      else if is_letter c then Some ([], InWord [c])
      else map_option (\<lambda>t. ([t], Top)) (punct c))"

definition emit :: "token list option \<Rightarrow> token list option \<Rightarrow> token list option" where
  "emit ts r = (case ts of None \<Rightarrow> None | Some xs \<Rightarrow> map_option ((@) xs) r)"

fun lex :: "lexmode \<Rightarrow> string \<Rightarrow> token list option" where
  "lex Top [] = Some []"
| "lex (InString acc) [] = None"
| "lex (InNumber acc) [] = map_option (\<lambda>i. [TNum i]) (int_lit acc)"
| "lex (InWord acc) [] = map_option (\<lambda>t. [t]) (word_lit acc)"
| "lex Top (c # cs) = (case top_step c of
       None \<Rightarrow> None
     | Some (ts, m) \<Rightarrow> emit (Some ts) (lex m cs))"
| "lex (InString acc) (c # cs) =
     (if c = CHR 0x22 then emit (Some [TStr acc]) (lex Top cs)
      else if c = CHR 0x5C \<or> (of_char c :: nat) < 32 then None
      else lex (InString (acc @ [c])) cs)"
| "lex (InNumber acc) (c # cs) =
     (if is_digit c then lex (InNumber (acc @ [c])) cs
      else if c = CHR ''.'' \<or> c = CHR ''e'' \<or> c = CHR ''E'' then None
      else (case top_step c of
          None \<Rightarrow> None
        | Some (ts, m) \<Rightarrow> emit (map_option (\<lambda>i. TNum i # ts) (int_lit acc)) (lex m cs)))"
| "lex (InWord acc) (c # cs) =
     (if is_letter c then lex (InWord (acc @ [c])) cs
      else (case top_step c of
          None \<Rightarrow> None
        | Some (ts, m) \<Rightarrow> emit (map_option (\<lambda>t. t # ts) (word_lit acc)) (lex m cs)))"

text \<open>Recursive descent over the tokens. The first argument bounds the number of nested
  calls; \<open>json_loads\<close> starts it above twice the number of tokens, which is never used up
  (\<open>parse_value_fuel\<close> below).\<close>

fun parse_value :: "nat \<Rightarrow> token list \<Rightarrow> (json \<times> token list) option"
and parse_members ::
  "nat \<Rightarrow> (string \<times> json) list \<Rightarrow> token list \<Rightarrow> (json \<times> token list) option"
and parse_elements :: "nat \<Rightarrow> json list \<Rightarrow> token list \<Rightarrow> (json \<times> token list) option"
where
  "parse_value 0 ts = None"
| "parse_value (Suc n) ts = (case ts of
       TNull # r \<Rightarrow> Some (JNull, r)
     | TTrue # r \<Rightarrow> Some (JBool True, r)
     | TFalse # r \<Rightarrow> Some (JBool False, r)
     | TNum i # r \<Rightarrow> Some (JNum i, r)
     | TStr s # r \<Rightarrow> Some (JStr s, r)
     | TLBrace # TRBrace # r \<Rightarrow> Some (JObj [], r)
     | TLBrace # r \<Rightarrow> parse_members n [] r
     | TLBrack # TRBrack # r \<Rightarrow> Some (JArr [], r)
     | TLBrack # r \<Rightarrow> parse_elements n [] r
     | _ \<Rightarrow> None)"
| "parse_members 0 acc ts = None"
| "parse_members (Suc n) acc ts = (case ts of
       TStr k # TColon # r \<Rightarrow> (case parse_value n r of
           None \<Rightarrow> None
         | Some (v, r') \<Rightarrow> (case r' of
               TComma # r'' \<Rightarrow> parse_members n (AList.update k v acc) r''
             | TRBrace # r'' \<Rightarrow> Some (JObj (AList.update k v acc), r'')
             | _ \<Rightarrow> None))
     | _ \<Rightarrow> None)"
| "parse_elements 0 acc ts = None"
| "parse_elements (Suc n) acc ts = (case parse_value n ts of
       None \<Rightarrow> None
     | Some (v, r') \<Rightarrow> (case r' of
           TComma # r'' \<Rightarrow> parse_elements n (acc @ [v]) r''
         | TRBrack # r'' \<Rightarrow> Some (JArr (acc @ [v]), r'')
         | _ \<Rightarrow> None))"

definition json_loads :: "string \<Rightarrow> error + json" where
  "json_loads s = (case lex Top s of
       None \<Rightarrow> Inl JSONDecodeError
     | Some ts \<Rightarrow> (case parse_value (Suc (length ts + length ts)) ts of
           None \<Rightarrow> Inl JSONDecodeError
         | Some (v, r) \<Rightarrow> (case r of [] \<Rightarrow> Inr v | _ # _ \<Rightarrow> Inl JSONDecodeError)))"

text \<open>Text that stands between two double quotes as it is: no double quote, no
  backslash, no control character.\<close>

definition json_plain :: "string \<Rightarrow> bool" where
  "json_plain s = list_all (\<lambda>c. c \<noteq> CHR 0x22 \<and> c \<noteq> CHR 0x5C \<and> 32 \<le> (of_char c :: nat)) s"

section \<open>The rule text of \<^verbatim>\<open>OciVcn.AddSecurityListIngressRule\<close>\<close>

text \<open>
  The local computation of the method, from its first line to \<^verbatim>\<open>rule_json_string\<close>: the
  defaults of \<^verbatim>\<open>end_port\<close> and \<^verbatim>\<open>source_range\<close>, the ICMP branch, which also sets
  \<^verbatim>\<open>start_port\<close> to \<^verbatim>\<open>None\<close>, the port-range branch, and the \<^verbatim>\<open>%\<close> formatting. The
  ports and the ICMP type and code are optional integers, the protocol is a string and
  the source range an optional string.
\<close>

definition rule_json_string ::
  "string \<Rightarrow> int option \<Rightarrow> int option \<Rightarrow> string option \<Rightarrow> int option \<Rightarrow> int option \<Rightarrow> string"
where
  \<open>rule_json_string protocol start_port end_port source_range protocol_type protocol_code =
    (let end_port = (if \<not> truthy_int end_port then start_port else end_port);
         end_port = (if truthy_int end_port then end_port else start_port);
         source_range = or_else source_range ''0.0.0.0/0'';
         source = ''"source":"'' @ source_range @ ''" ,'';
         protocol_str = ''"protocol": "'' @ protocol @ ''" ,'';
         icmp_options =
           (if protocol = ''1''
            then (if protocol_type = None \<and> protocol_code = None
                  then ''"icmp-options": null,''
                  else ''"icmp-options": { "code": '' @ py_str protocol_code
                         @ '', "type": '' @ py_str protocol_type @ ''},'')
            else ''"icmp-options": null,'');
         start_port = (if protocol = ''1'' then None else start_port);
         tcpOptions =
           (if truthy_int start_port
            then ''"tcp-options":{"destinationPortRange": {"max": '' @ py_str end_port
                   @ '', "min": '' @ py_str start_port @ '' }},''
            else ''"tcp-options": null,'');
         udp_options = ''"udp-options": null''
     in ''{'' @ source @ '' '' @ icmp_options @ '' '' @ protocol_str
          @ '' "is-stateless": false, '' @ tcpOptions @ '' '' @ udp_options @ '' }'')\<close>

section \<open>Commands and the control plane\<close>

text \<open>
  A command is the list of words that the code hands to \<^verbatim>\<open>util.GetEncodedCmd\<close>. A word
  that formats an attribute into text keeps the attribute as a value: \<open>Fmt p v s\<close> is the
  text \<open>p\<close>, then \<^verbatim>\<open>str(v)\<close>, then the text \<open>s\<close>, and \<open>FmtDumps p v s\<close> has
  \<^verbatim>\<open>json.dumps(v)\<close> in the middle.
\<close>

datatype arg = Lit string | Fmt string json string | FmtDumps string json string

type_synonym cmd = "arg list"

type_synonym trace = "cmd list"

text \<open>
  What the code takes from outside this module: the flags, the constants and helpers of
  \<^verbatim>\<open>util\<close>, the random \<^verbatim>\<open>uuid.uuid4()\<close>, the retry policy of \<^verbatim>\<open>vm_util.Retry\<close>, and the
  control plane, which answers a command with its standard output and return code and
  may depend on the commands issued before.
\<close>

record env =
  OCI_PREFIX :: cmd
  run_uri :: string
  oci_network_name :: "string option"
  oci_use_vcn :: bool
  MakeFormattedDefaultTags :: string
  uuid4 :: string
  retry_timeout :: nat
  retry_poll_interval :: nat
  control_plane :: "trace \<Rightarrow> cmd \<Rightarrow> string \<times> int"

text \<open>A method is a function of the state that returns a value or raises, and the new
  state. The state of every method ends with the commands issued so far.\<close>

type_synonym ('s, 'a) prog = "'s \<Rightarrow> (error + 'a) \<times> 's"

definition ret :: "'a \<Rightarrow> ('s, 'a) prog" where
  "ret x s = (Inr x, s)"

definition raise :: "error \<Rightarrow> ('s, 'a) prog" where
  "raise err s = (Inl err, s)"

definition lift :: "error + 'a \<Rightarrow> ('s, 'a) prog" where
  "lift r s = (r, s)"

definition then_do :: "('s, 'a) prog \<Rightarrow> ('a \<Rightarrow> ('s, 'b) prog) \<Rightarrow> ('s, 'b) prog" where
  "then_do m f s = (case m s of (r, s') \<Rightarrow> (case r of Inl err \<Rightarrow> (Inl err, s') | Inr x \<Rightarrow> f x s'))"

definition on_trace :: "(trace, 'a) prog \<Rightarrow> ('o \<times> trace, 'a) prog" where
  "on_trace m = (\<lambda>(self, tr). case m tr of (r, tr') \<Rightarrow> (r, (self, tr')))"

definition modify :: "('o \<Rightarrow> 'o) \<Rightarrow> ('o \<times> trace, unit) prog" where
  "modify f = (\<lambda>(self, tr). (Inr (), (f self, tr)))"

text \<open>
  Modelled from the spec: \<^verbatim>\<open>vm_util.IssueCommand\<close> is not among the sources. The client
  executes the command and returns the response; with \<^verbatim>\<open>raise_on_failure\<close> a failed
  call is a transport failure.
\<close>

definition IssueCommand :: "env \<Rightarrow> bool \<Rightarrow> cmd \<Rightarrow> (trace, string) prog" where
  "IssueCommand e raise_on_failure c tr = (case control_plane e tr c of (out, rc) \<Rightarrow>
     (if raise_on_failure \<and> rc \<noteq> 0 then Inl IssueCommandError else Inr out, tr @ [c]))"

text \<open>
  Modelled from the spec: \<^verbatim>\<open>vm_util.Retry\<close> is not among the sources. The decorated
  function is called again at a fixed interval until it returns; a fixed ceiling bounds
  the total wait, after which the failure of the last call is surfaced. The first
  argument of \<open>retry_loop\<close> is the number of intervals left before the ceiling. Every
  call site has a positive interval.
\<close>

fun retry_loop :: "nat \<Rightarrow> ('s, 'a) prog \<Rightarrow> ('s, 'a) prog" where
  "retry_loop 0 f s = f s"
| "retry_loop (Suc n) f s = (case f s of (r, s') \<Rightarrow>
     (case r of Inl err \<Rightarrow> retry_loop n f s' | Inr x \<Rightarrow> (Inr x, s')))"

definition Retry :: "env \<Rightarrow> nat \<Rightarrow> ('s, 'a) prog \<Rightarrow> ('s, 'a) prog" where
  "Retry e poll_interval f = retry_loop (retry_timeout e div poll_interval) f"

text \<open>
  Modelled from the spec: \<^verbatim>\<open>vm_util.IssueRetryableCommand\<close> is not among the sources.
  Transient transport errors are retried by the command-retry layer.
\<close>

definition IssueRetryableCommand :: "env \<Rightarrow> cmd \<Rightarrow> (trace, string) prog" where
  "IssueRetryableCommand e c = Retry e (retry_poll_interval e) (IssueCommand e True c)"

section \<open>\<^verbatim>\<open>class OciVcn\<close>\<close>

record OciVcn =
  status :: json
  region :: string
  profile :: string
  id_attr :: json
  name :: string
  cidr_blocks :: "string list"
  cidr_block :: json
  vcn_id :: json
  subnet_id :: json
  ig_id :: json
  rt_id :: json
  security_list_id :: json
  tags :: string

type_synonym vcn_state = "OciVcn \<times> trace"

definition OciVcn_init :: "env \<Rightarrow> string \<Rightarrow> string \<Rightarrow> string \<Rightarrow> OciVcn" where
  "OciVcn_init e name' region' profile' =
     \<lparr>status = JNull, region = region', profile = profile', id_attr = JNull, name = name',
      cidr_blocks = [''172.16.0.0/16''], cidr_block = JNull, vcn_id = JNull,
      subnet_id = JNull, ig_id = JNull, rt_id = JNull, security_list_id = JNull,
      tags = MakeFormattedDefaultTags e\<rparr>"

text \<open>\<^verbatim>\<open>json.loads(out)["data"][key]\<close>\<close>

definition data_field :: "string \<Rightarrow> string \<Rightarrow> error + json" where
  "data_field out k =
     and_then (json_loads out) (\<lambda>response. and_then (getitem response ''data'') (\<lambda>d. getitem d k))"

text \<open>\<^verbatim>\<open>json.loads(stdout)["data"][0]["id"]\<close>\<close>

definition first_id :: "string \<Rightarrow> error + json" where
  "first_id out =
     and_then (json_loads out) (\<lambda>response. and_then (getitem response ''data'')
       (\<lambda>d. and_then (getitem0 d) (\<lambda>x. getitem x ''id'')))"

subsection \<open>The readiness poller\<close>

text \<open>
  The five wait methods have the same body after \<^verbatim>\<open>status_cmd\<close> is built: one query of
  the resource, the state stored in \<^verbatim>\<open>self.status\<close>, and the assertion that the state is
  in \<^verbatim>\<open>status_list\<close>.
\<close>

definition check_lifecycle_state :: "env \<Rightarrow> cmd \<Rightarrow> string list \<Rightarrow> (vcn_state, unit) prog" where
  "check_lifecycle_state e status_cmd status_list =
     then_do (on_trace (IssueRetryableCommand e status_cmd)) (\<lambda>out.
     then_do (lift (data_field out ''lifecycle-state'')) (\<lambda>check_state.
     then_do (modify (\<lambda>self. self\<lparr>status := check_state\<rparr>)) (\<lambda>_.
     if py_in check_state status_list then ret () else raise AssertionError)))"

text \<open>The body of \<^verbatim>\<open>WaitForVcnStatus\<close>, and the method as decorated with
  \<^verbatim>\<open>@vm_util.Retry(poll_interval=60, log_errors=False)\<close>.\<close>

definition WaitForVcnStatus_body :: "env \<Rightarrow> string list \<Rightarrow> (vcn_state, unit) prog" where
  "WaitForVcnStatus_body e status_list = (\<lambda>(self, tr).
     check_lifecycle_state e
       (OCI_PREFIX e @ [Lit ''network'', Lit ''vcn'', Lit ''get'',
          Fmt ''--vcn-id '' (vcn_id self) [], Lit (''--profile '' @ profile self)])
       status_list (self, tr))"

definition WaitForVcnStatus :: "env \<Rightarrow> string list \<Rightarrow> (vcn_state, unit) prog" where
  "WaitForVcnStatus e status_list = Retry e 60 (WaitForVcnStatus_body e status_list)"

text \<open>The body of \<^verbatim>\<open>WaitForSubnetStatus\<close>, and the method as decorated with
  \<^verbatim>\<open>@vm_util.Retry(poll_interval=60, log_errors=False)\<close>.\<close>

definition WaitForSubnetStatus_body :: "env \<Rightarrow> string list \<Rightarrow> (vcn_state, unit) prog" where
  "WaitForSubnetStatus_body e status_list = (\<lambda>(self, tr).
     check_lifecycle_state e
       (OCI_PREFIX e @ [Lit ''network'', Lit ''subnet'', Lit ''get'',
          Fmt ''--subnet-id '' (subnet_id self) [], Lit (''--profile '' @ profile self)])
       status_list (self, tr))"

definition WaitForSubnetStatus :: "env \<Rightarrow> string list \<Rightarrow> (vcn_state, unit) prog" where
  "WaitForSubnetStatus e status_list = Retry e 60 (WaitForSubnetStatus_body e status_list)"

text \<open>The other three wait methods carry no decorator.\<close>

definition WaitForInternetGatewayStatus :: "env \<Rightarrow> string list \<Rightarrow> (vcn_state, unit) prog" where
  "WaitForInternetGatewayStatus e status_list = (\<lambda>(self, tr).
     check_lifecycle_state e
       (OCI_PREFIX e @ [Lit ''network'', Lit ''internet-gateway'', Lit ''get'',
          Fmt ''--ig-id '' (ig_id self) [], Lit (''--profile '' @ profile self)])
       status_list (self, tr))"

definition WaitForRouteTableStatus :: "env \<Rightarrow> string list \<Rightarrow> (vcn_state, unit) prog" where
  "WaitForRouteTableStatus e status_list = (\<lambda>(self, tr).
     check_lifecycle_state e
       (OCI_PREFIX e @ [Lit ''network'', Lit ''route-table'', Lit ''get'',
          Fmt ''--rt-id '' (rt_id self) [], Lit (''--profile '' @ profile self)])
       status_list (self, tr))"

definition WaitForSecurityListStatus :: "env \<Rightarrow> string list \<Rightarrow> (vcn_state, unit) prog" where
  "WaitForSecurityListStatus e status_list = (\<lambda>(self, tr).
     check_lifecycle_state e
       (OCI_PREFIX e @ [Lit ''network'', Lit ''security-list'', Lit ''get'',
          Fmt ''--security-list-id '' (security_list_id self) [],
          Lit (''--profile '' @ profile self)])
       status_list (self, tr))"

subsection \<open>Creation, lookup and deletion of the resources\<close>

text \<open>\<^verbatim>\<open>OciVcn._Create\<close>\<close>

definition OciVcn_Create_impl :: "env \<Rightarrow> (vcn_state, unit) prog" where
  \<open>OciVcn_Create_impl e = (\<lambda>(self, tr).
     then_do (on_trace (IssueCommand e False
       (OCI_PREFIX e @ [Lit ''network'', Lit ''vcn'', Lit ''create'',
          Lit (''--display-name pkb-'' @ run_uri e), Lit (''--dns-label vcn'' @ run_uri e),
          Lit (''--freeform-tags '' @ tags self),
          Lit (''--from-json '{"cidr-blocks":["172.16.0.0/16"]}'' @ [CHR 0x27]),
          Lit (''--profile '' @ profile self)]))) (\<lambda>stdout.
     then_do (lift (data_field stdout ''id'')) (\<lambda>i.
     then_do (modify (\<lambda>self. self\<lparr>vcn_id := i\<rparr>)) (\<lambda>_.
     then_do (lift (data_field stdout ''cidr-block'')) (\<lambda>c.
     modify (\<lambda>self. self\<lparr>cidr_block := c\<rparr>))))) (self, tr))\<close>

text \<open>\<^verbatim>\<open>OciVcn._Delete\<close>\<close>

definition OciVcn_Delete_impl :: "env \<Rightarrow> (vcn_state, unit) prog" where
  "OciVcn_Delete_impl e = (\<lambda>(self, tr).
     then_do (on_trace (IssueCommand e False
       (OCI_PREFIX e @ [Lit ''network'', Lit ''vcn'', Lit ''delete'',
          Fmt ''--vcn-id '' (vcn_id self) [], Lit (''--profile '' @ profile self),
          Lit ''--force'']))) (\<lambda>stdout. ret ()) (self, tr))"

text \<open>
  Modelled from the spec: \<^verbatim>\<open>resource.BaseResource\<close>, whose \<^verbatim>\<open>Create\<close> and \<^verbatim>\<open>Delete\<close>
  the class inherits, is not among the sources. Creating the virtual network is the
  call of \<^verbatim>\<open>_Create\<close>; deleting it is the call of \<^verbatim>\<open>_Delete\<close>, a forced delete with no
  wait after it.
\<close>

definition BaseResource_Create :: "env \<Rightarrow> (vcn_state, unit) prog" where
  "BaseResource_Create e = OciVcn_Create_impl e"

definition BaseResource_Delete :: "env \<Rightarrow> (vcn_state, unit) prog" where
  "BaseResource_Delete e = OciVcn_Delete_impl e"

definition GetVcnIDFromName :: "env \<Rightarrow> (vcn_state, unit) prog" where
  "GetVcnIDFromName e = (\<lambda>(self, tr).
     then_do (on_trace (IssueCommand e False
       (OCI_PREFIX e @ [Lit ''network'', Lit ''vcn'', Lit ''list'',
          Lit (''--display-name '' @ name self)]))) (\<lambda>stdout.
     then_do (lift (first_id stdout)) (\<lambda>i.
     modify (\<lambda>self. self\<lparr>vcn_id := i\<rparr>))) (self, tr))"

definition GetSubnetIdFromVCNId :: "env \<Rightarrow> (vcn_state, unit) prog" where
  "GetSubnetIdFromVCNId e = (\<lambda>(self, tr).
     then_do (on_trace (IssueCommand e False
       (OCI_PREFIX e @ [Lit ''network'', Lit ''subnet'', Lit ''list'',
          Fmt ''--vcn-id '' (vcn_id self) [], Lit (''--profile '' @ profile self)])))
       (\<lambda>stdout.
     then_do (lift (first_id stdout)) (\<lambda>i.
     modify (\<lambda>self. self\<lparr>subnet_id := i\<rparr>))) (self, tr))"

definition CreateSubnet :: "env \<Rightarrow> (vcn_state, unit) prog" where
  "CreateSubnet e = (\<lambda>(self, tr).
     then_do (on_trace (IssueCommand e False
       (OCI_PREFIX e @ [Lit ''network'', Lit ''subnet'', Lit ''create'',
          Lit (''--display-name pkb-'' @ run_uri e), Lit (''--dns-label sub'' @ run_uri e),
          Fmt ''--cidr-block '' (cidr_block self) [], Fmt ''--vcn-id '' (vcn_id self) [],
          Lit (''--profile '' @ profile self)]))) (\<lambda>stdout.
     then_do (lift (data_field stdout ''id'')) (\<lambda>i.
     modify (\<lambda>self. self\<lparr>subnet_id := i\<rparr>))) (self, tr))"

definition DeleteSubnet :: "env \<Rightarrow> (vcn_state, unit) prog" where
  "DeleteSubnet e = (\<lambda>(self, tr).
     then_do (on_trace (IssueCommand e False
       (OCI_PREFIX e @ [Lit ''network'', Lit ''subnet'', Lit ''delete'',
          Fmt ''--subnet-id '' (subnet_id self) [], Lit (''--profile '' @ profile self),
          Lit ''--force'']))) (\<lambda>stdout. ret ()) (self, tr))"

definition CreateInternetGateway :: "env \<Rightarrow> (vcn_state, unit) prog" where
  "CreateInternetGateway e = (\<lambda>(self, tr).
     then_do (on_trace (IssueCommand e False
       (OCI_PREFIX e @ [Lit ''network'', Lit ''internet-gateway'', Lit ''create'',
          Lit (''--display-name pkb-'' @ run_uri e), Fmt ''--vcn-id '' (vcn_id self) [],
          Lit (''--profile '' @ profile self), Lit ''--is-enabled  True'']))) (\<lambda>stdout.
     then_do (lift (data_field stdout ''id'')) (\<lambda>i.
     modify (\<lambda>self. self\<lparr>ig_id := i\<rparr>))) (self, tr))"

definition DeleteInternetGateway :: "env \<Rightarrow> (vcn_state, unit) prog" where
  "DeleteInternetGateway e = (\<lambda>(self, tr).
     then_do (on_trace (IssueCommand e False
       (OCI_PREFIX e @ [Lit ''network'', Lit ''internet-gateway'', Lit ''delete'',
          Fmt ''--ig-id '' (ig_id self) [], Lit (''--profile '' @ profile self),
          Lit ''--force'']))) (\<lambda>stdout. ret ()) (self, tr))"

definition UpdateRouteTable :: "env \<Rightarrow> (vcn_state, unit) prog" where
  \<open>UpdateRouteTable e = (\<lambda>(self, tr).
     then_do (on_trace (IssueCommand e False
       (OCI_PREFIX e @ [Lit ''network'', Lit ''route-table'', Lit ''update'',
          Fmt ''--rt-id '' (rt_id self) [], Lit ''--force'',
          Fmt ''--route-rules '[{"cidrBlock":"0.0.0.0/0","networkEntityId":"'' (ig_id self)
            (''"}]'' @ [CHR 0x27]),
          Lit (''--profile '' @ profile self)]))) (\<lambda>stdout. ret ()) (self, tr))\<close>

definition ClearRouteTable :: "env \<Rightarrow> (vcn_state, unit) prog" where
  "ClearRouteTable e = (\<lambda>(self, tr).
     then_do (on_trace (IssueCommand e False
       (OCI_PREFIX e @ [Lit ''network'', Lit ''route-table'', Lit ''update'',
          Fmt ''--rt-id '' (rt_id self) [], Lit ''--force'',
          Lit (''--route-rules '[]'' @ [CHR 0x27]),
          Lit (''--profile '' @ profile self)]))) (\<lambda>stdout. ret ()) (self, tr))"

definition GetDefaultRouteTableId :: "env \<Rightarrow> (vcn_state, unit) prog" where
  "GetDefaultRouteTableId e = (\<lambda>(self, tr).
     then_do (on_trace (IssueCommand e True
       (OCI_PREFIX e @ [Lit ''network'', Lit ''vcn'', Lit ''get'',
          Fmt ''--vcn-id '' (vcn_id self) [], Lit (''--profile '' @ profile self)])))
       (\<lambda>out.
     then_do (lift (data_field out ''default-route-table-id'')) (\<lambda>i.
     modify (\<lambda>self. self\<lparr>rt_id := i\<rparr>))) (self, tr))"

definition GetDefaultSecurityListId :: "env \<Rightarrow> (vcn_state, unit) prog" where
  "GetDefaultSecurityListId e = (\<lambda>(self, tr).
     then_do (on_trace (IssueCommand e True
       (OCI_PREFIX e @ [Lit ''network'', Lit ''vcn'', Lit ''get'',
          Fmt ''--vcn-id '' (vcn_id self) [], Lit (''--profile '' @ profile self)])))
       (\<lambda>out.
     then_do (lift (data_field out ''default-security-list-id'')) (\<lambda>i.
     modify (\<lambda>self. self\<lparr>security_list_id := i\<rparr>))) (self, tr))"

subsection \<open>The rule set editor\<close>

definition GetSecurityListFromId :: "env \<Rightarrow> (vcn_state, json) prog" where
  "GetSecurityListFromId e = (\<lambda>(self, tr).
     then_do (on_trace (IssueCommand e False
       (OCI_PREFIX e @ [Lit ''network'', Lit ''security-list'', Lit ''get'',
          Fmt ''--security-list-id '' (security_list_id self) [],
          Lit (''--profile '' @ profile self)]))) (\<lambda>stdout.
     lift (data_field stdout ''ingress-security-rules'')) (self, tr))"

text \<open>
  The method fetches the current rules, decodes the text of the new rule, appends it (a
  value that is not a list has no \<^verbatim>\<open>append\<close>), and writes the whole list back.
\<close>

definition AddSecurityListIngressRule ::
  "env \<Rightarrow> string \<Rightarrow> int option \<Rightarrow> int option \<Rightarrow> string option \<Rightarrow> int option \<Rightarrow> int option
   \<Rightarrow> (vcn_state, unit) prog"
where
  "AddSecurityListIngressRule e protocol start_port end_port source_range protocol_type
     protocol_code =
     then_do (GetSecurityListFromId e) (\<lambda>current_security_rules.
     (case current_security_rules of
        JArr rules \<Rightarrow>
          then_do (lift (json_loads (rule_json_string protocol start_port end_port
            source_range protocol_type protocol_code))) (\<lambda>rule. (\<lambda>(self, tr).
          then_do (on_trace (IssueCommand e False
            (OCI_PREFIX e @ [Lit ''network'', Lit ''security-list'', Lit ''update'',
               Fmt ''--security-list-id '' (security_list_id self) [], Lit ''--force'',
               FmtDumps (''--ingress-security-rules '' @ [CHR 0x27]) (JArr (rules @ [rule]))
                 [CHR 0x27],
               Lit (''--profile '' @ profile self)]))) (\<lambda>stdout. ret ()) (self, tr)))
      | _ \<Rightarrow> raise AttributeError))"

section \<open>\<^verbatim>\<open>class OciNetwork\<close>\<close>

text \<open>An attribute that the constructor assigns on one branch only: never assigned,
  assigned \<^verbatim>\<open>None\<close>, or assigned an object.\<close>

datatype 'a attr = Unset | PyNone | Obj 'a

record OciNetwork =
  net_name :: string
  net_profile :: string
  net_region :: string
  use_vcn :: bool
  network_id :: json
  net_vcn_id :: json
  vcn :: "OciVcn attr"
  security_group :: "unit attr"

text \<open>
  \<^verbatim>\<open>network.BaseNetwork\<close> is not among the sources; the constructor takes the object as
  \<^verbatim>\<open>super().__init__(spec)\<close> leaves it, and \<^verbatim>\<open>spec.zone\<close>. The last twelve characters of
  the uuid end the generated name.
\<close>

definition OciNetwork_init :: "env \<Rightarrow> string \<Rightarrow> OciNetwork \<Rightarrow> OciNetwork" where
  "OciNetwork_init e zone self =
     (let self = self\<lparr>net_name := or_else (oci_network_name e)
            (''perfkit-'' @ run_uri e @ ''-'' @ drop (length (uuid4 e) - 12) (uuid4 e))\<rparr>;
          self = self\<lparr>net_profile := zone\<rparr>;
          self = self\<lparr>net_region := zone\<rparr>;
          self = self\<lparr>use_vcn := oci_use_vcn e\<rparr>;
          self = self\<lparr>network_id := JNull\<rparr>;
          self = self\<lparr>net_vcn_id := JNull\<rparr>
      in if use_vcn self
         then self\<lparr>vcn := Obj (OciVcn_init e (net_name self) (net_region self) (net_profile self)),
                   security_group := PyNone\<rparr>
         else self)"

text \<open>The object before the constructor of \<^verbatim>\<open>OciNetwork\<close> has assigned anything.\<close>

definition new_object :: OciNetwork where
  "new_object = \<lparr>net_name = [], net_profile = [], net_region = [], use_vcn = False,
     network_id = JNull, net_vcn_id = JNull, vcn = Unset, security_group = Unset\<rparr>"

type_synonym net_state = "OciNetwork \<times> trace"

text \<open>A method call \<^verbatim>\<open>self.vcn.m(...)\<close>: the attribute must hold an object.\<close>

definition on_vcn :: "(vcn_state, 'a) prog \<Rightarrow> (net_state, 'a) prog" where
  "on_vcn m = (\<lambda>(self, tr). case vcn self of
       Obj v \<Rightarrow> (case m (v, tr) of (r, (v', tr')) \<Rightarrow> (r, (self\<lparr>vcn := Obj v'\<rparr>, tr')))
     | _ \<Rightarrow> (Inl AttributeError, (self, tr)))"

text \<open>The statements of \<^verbatim>\<open>Create\<close> and \<^verbatim>\<open>Delete\<close>, one constructor for each method of
  \<^verbatim>\<open>self.vcn\<close> they call, with its arguments, and one for the assignment of
  \<^verbatim>\<open>self.network_id\<close>.\<close>

datatype step =
    Call_Create
  | Call_WaitForVcnStatus "string list"
  | Call_GetDefaultRouteTableId
  | Call_GetDefaultSecurityListId
  | Call_CreateSubnet
  | Call_WaitForSubnetStatus "string list"
  | Set_network_id
  | Call_CreateInternetGateway
  | Call_WaitForInternetGatewayStatus "string list"
  | Call_UpdateRouteTable
  | Call_WaitForRouteTableStatus "string list"
  | Call_AddSecurityListIngressRule string "int option"
  | Call_WaitForSecurityListStatus "string list"
  | Call_GetVcnIDFromName
  | Call_GetSubnetIdFromVCNId
  | Call_ClearRouteTable
  | Call_DeleteInternetGateway
  | Call_DeleteSubnet
  | Call_Delete

fun exec :: "env \<Rightarrow> step \<Rightarrow> (net_state, unit) prog" where
  "exec e Call_Create = on_vcn (BaseResource_Create e)"
| "exec e (Call_WaitForVcnStatus status_list) = on_vcn (WaitForVcnStatus e status_list)"
| "exec e Call_GetDefaultRouteTableId = on_vcn (GetDefaultRouteTableId e)"
| "exec e Call_GetDefaultSecurityListId = on_vcn (GetDefaultSecurityListId e)"
| "exec e Call_CreateSubnet = on_vcn (CreateSubnet e)"
| "exec e (Call_WaitForSubnetStatus status_list) = on_vcn (WaitForSubnetStatus e status_list)"
| "exec e Set_network_id =
     then_do (on_vcn (\<lambda>(v, tr). (Inr (subnet_id v), (v, tr)))) (\<lambda>i.
     modify (\<lambda>self. self\<lparr>network_id := i\<rparr>))"
| "exec e Call_CreateInternetGateway = on_vcn (CreateInternetGateway e)"
| "exec e (Call_WaitForInternetGatewayStatus status_list) =
     on_vcn (WaitForInternetGatewayStatus e status_list)"
| "exec e Call_UpdateRouteTable = on_vcn (UpdateRouteTable e)"
| "exec e (Call_WaitForRouteTableStatus status_list) =
     on_vcn (WaitForRouteTableStatus e status_list)"
| "exec e (Call_AddSecurityListIngressRule protocol start_port) =
     on_vcn (AddSecurityListIngressRule e protocol start_port None None None None)"
| "exec e (Call_WaitForSecurityListStatus status_list) =
     on_vcn (WaitForSecurityListStatus e status_list)"
| "exec e Call_GetVcnIDFromName = on_vcn (GetVcnIDFromName e)"
| "exec e Call_GetSubnetIdFromVCNId = on_vcn (GetSubnetIdFromVCNId e)"
| "exec e Call_ClearRouteTable = on_vcn (ClearRouteTable e)"
| "exec e Call_DeleteInternetGateway = on_vcn (DeleteInternetGateway e)"
| "exec e Call_DeleteSubnet = on_vcn (DeleteSubnet e)"
| "exec e Call_Delete = on_vcn (BaseResource_Delete e)"

fun run :: "env \<Rightarrow> step list \<Rightarrow> (net_state, unit) prog" where
  "run e [] = ret ()"
| "run e (st # sts) = then_do (exec e st) (\<lambda>_. run e sts)"

text \<open>The two branches of \<^verbatim>\<open>OciNetwork.Create\<close>. The second rule is added with the
  default \<^verbatim>\<open>start_port=22\<close> of the method.\<close>

definition Create_steps :: "bool \<Rightarrow> step list" where
  "Create_steps use_vcn' =
     (if use_vcn'
      then [Call_Create,
            Call_WaitForVcnStatus [''AVAILABLE''],
            Call_GetDefaultRouteTableId,
            Call_GetDefaultSecurityListId,
            Call_CreateSubnet,
            Call_WaitForSubnetStatus [''AVAILABLE''],
            Set_network_id,
            Call_CreateInternetGateway,
            Call_WaitForInternetGatewayStatus [''AVAILABLE''],
            Call_UpdateRouteTable,
            Call_WaitForRouteTableStatus [''AVAILABLE''],
            Call_AddSecurityListIngressRule ''6'' (Some 22),
            Call_WaitForSecurityListStatus [''AVAILABLE''],
            Call_AddSecurityListIngressRule ''1'' (Some 22),
            Call_WaitForSecurityListStatus [''AVAILABLE'']]
      else [Call_GetVcnIDFromName,
            Call_GetSubnetIdFromVCNId,
            Set_network_id])"

text \<open>The body of \<^verbatim>\<open>OciNetwork.Create\<close>, and the method as decorated with
  \<^verbatim>\<open>@vm_util.Retry()\<close>.\<close>

definition OciNetwork_Create_body :: "env \<Rightarrow> (net_state, unit) prog" where
  "OciNetwork_Create_body e = (\<lambda>(self, tr). run e (Create_steps (use_vcn self)) (self, tr))"

definition OciNetwork_Create :: "env \<Rightarrow> (net_state, unit) prog" where
  "OciNetwork_Create e = Retry e (retry_poll_interval e) (OciNetwork_Create_body e)"

definition Delete_steps :: "bool \<Rightarrow> step list" where
  "Delete_steps use_vcn' =
     (if use_vcn'
      then [Call_ClearRouteTable,
            Call_DeleteInternetGateway,
            Call_DeleteSubnet,
            Call_Delete]
      else [])"

definition OciNetwork_Delete :: "env \<Rightarrow> (net_state, unit) prog" where
  "OciNetwork_Delete e = (\<lambda>(self, tr). run e (Delete_steps (use_vcn self)) (self, tr))"

text \<open>The status list that a step passes to a wait method.\<close>

fun wait_statuses :: "step \<Rightarrow> string list option" where
  "wait_statuses (Call_WaitForVcnStatus status_list) = Some status_list"
| "wait_statuses (Call_WaitForSubnetStatus status_list) = Some status_list"
| "wait_statuses (Call_WaitForInternetGatewayStatus status_list) = Some status_list"
| "wait_statuses (Call_WaitForRouteTableStatus status_list) = Some status_list"
| "wait_statuses (Call_WaitForSecurityListStatus status_list) = Some status_list"
| "wait_statuses _ = None"

text \<open>The status sets that the module defines.\<close>

definition VCN_CREATE_STATUSES :: "string set" where
  "VCN_CREATE_STATUSES =
     {''AVAILABLE'', ''PROVISIONING'', ''TERMINATED'', ''TERMINATING'', ''UPDATING''}"

definition SUBNET_CREATE_STATUSES :: "string set" where
  "SUBNET_CREATE_STATUSES =
     {''AVAILABLE'', ''PROVISIONING'', ''TERMINATED'', ''TERMINATING'', ''UPDATING''}"

definition IG_CREATE_STATUSES :: "string set" where
  "IG_CREATE_STATUSES = {''AVAILABLE'', ''PROVISIONING'', ''TERMINATED'', ''TERMINATING''}"

definition ROUTE_TABLE_UPDATE_STATUSES :: "string set" where
  "ROUTE_TABLE_UPDATE_STATUSES =
     {''AVAILABLE'', ''PROVISIONING'', ''TERMINATED'', ''TERMINATING''}"

definition SECURITY_LIST_UPDATE_STATUSES :: "string set" where
  "SECURITY_LIST_UPDATE_STATUSES =
     {''AVAILABLE'', ''PROVISIONING'', ''TERMINATED'', ''TERMINATING''}"

section \<open>\<^verbatim>\<open>class OCIFirewall\<close>\<close>

text \<open>
  The state is \<^verbatim>\<open>vm.network\<close>. Reading \<^verbatim>\<open>vm.network.vcn\<close> raises when the attribute was
  never assigned; \<^verbatim>\<open>None\<close> is false and an \<^verbatim>\<open>OciVcn\<close> object is true. The branch that
  refuses only logs.
\<close>

definition AllowPort ::
  "env \<Rightarrow> int option \<Rightarrow> int option \<Rightarrow> string option \<Rightarrow> (net_state, unit) prog"
where
  "AllowPort e start_port end_port source_range = (\<lambda>(network, tr). case vcn network of
       Unset \<Rightarrow> (Inl AttributeError, (network, tr))
     | PyNone \<Rightarrow> (Inr (), (network, tr))
     | Obj v \<Rightarrow>
         then_do (on_vcn (AddSecurityListIngressRule e ''6'' start_port end_port
           source_range None None)) (\<lambda>_.
         on_vcn (WaitForRouteTableStatus e [''AVAILABLE''])) (network, tr))"

definition AllowIcmp ::
  "env \<Rightarrow> int option \<Rightarrow> int option \<Rightarrow> string option \<Rightarrow> (net_state, unit) prog"
where
  "AllowIcmp e protocol_type protocol_code source_range = (\<lambda>(network, tr).
     case vcn network of
       Unset \<Rightarrow> (Inl AttributeError, (network, tr))
     | PyNone \<Rightarrow> (Inr (), (network, tr))
     | Obj v \<Rightarrow>
         then_do (on_vcn (AddSecurityListIngressRule e ''1'' (Some 22) None source_range
           protocol_type protocol_code)) (\<lambda>_.
         on_vcn (WaitForRouteTableStatus e [''AVAILABLE''])) (network, tr))"

section \<open>Values used to state the properties\<close>




text \<open>The five identifiers of the stack attached to a network, in dependency order.\<close>

definition stack_ids :: "OciNetwork \<Rightarrow> json list" where
  "stack_ids self = (case vcn self of
       Obj v \<Rightarrow> [vcn_id v, subnet_id v, ig_id v, rt_id v, security_list_id v]
     | _ \<Rightarrow> [])"

text \<open>
  A control plane for the concrete runs below: the first command ever issued sees a
  resource that is still provisioning, every later one sees it available; the security
  list has no rule.
\<close>

definition sample_plane :: "trace \<Rightarrow> cmd \<Rightarrow> string \<times> int" where
  \<open>sample_plane tr c =
     (if tr = []
      then (''{"data": {"lifecycle-state": "PROVISIONING", "ingress-security-rules": []}}'', 0)
      else (''{"data": {"lifecycle-state": "AVAILABLE", "ingress-security-rules": []}}'', 0))\<close>

definition sample_env :: "bool \<Rightarrow> env" where
  "sample_env managed = \<lparr>OCI_PREFIX = [Lit ''oci''], run_uri = ''run1'',
     oci_network_name = None, oci_use_vcn = managed, MakeFormattedDefaultTags = ''{}'',
     uuid4 = ''123e4567-e89b-12d3-a456-426614174000'', retry_timeout = 600,
     retry_poll_interval = 30, control_plane = sample_plane\<rparr>"

text \<open>A stack as \<^verbatim>\<open>Create\<close> leaves it, with its five identifiers set.\<close>

definition sample_vcn :: OciVcn where
  "sample_vcn = (OciVcn_init (sample_env True) ''net-A'' ''zone-1'' ''zone-1'')
     \<lparr>vcn_id := JStr ''ocid1.vcn'', subnet_id := JStr ''ocid1.subnet'',
      ig_id := JStr ''ocid1.internetgateway'', rt_id := JStr ''ocid1.routetable'',
      security_list_id := JStr ''ocid1.securitylist''\<rparr>"

definition sample_network :: OciNetwork where
  "sample_network =
     (OciNetwork_init (sample_env True) ''zone-1'' new_object)\<lparr>vcn := Obj sample_vcn\<rparr>"

text \<open>The network that the constructor builds when \<^verbatim>\<open>FLAGS.oci_use_vcn\<close> is false.\<close>

definition unmanaged_network :: OciNetwork where
  "unmanaged_network = OciNetwork_init (sample_env False) ''zone-1'' new_object"

section \<open>The bound of the parser\<close>

text \<open>Every parse leaves fewer tokens than it was given.\<close>

lemma parse_shorter_all:
  "(\<forall>ts v r. parse_value n ts = Some (v, r) \<longrightarrow> length r < length ts)
   \<and> (\<forall>acc ts v r. parse_members n acc ts = Some (v, r) \<longrightarrow> length r < length ts)
   \<and> (\<forall>acc ts v r. parse_elements n acc ts = Some (v, r) \<longrightarrow> length r < length ts)"
proof (induction n)
  case 0
  show ?case by simp
next
  case (Suc n)
  have v: "length r < length ts" if "parse_value (Suc n) ts = Some (v, r)" for ts v r
    using that Suc by (fastforce split: list.splits token.splits)
  have m: "length r < length ts" if "parse_members (Suc n) acc ts = Some (v, r)" for acc ts v r
    using that Suc by (fastforce split: list.splits token.splits option.splits)
  have e: "length r < length ts" if "parse_elements (Suc n) acc ts = Some (v, r)" for acc ts v r
    using that Suc by (fastforce split: list.splits token.splits option.splits)
  show ?case using v m e by blast
qed

lemma parse_value_shorter: "parse_value n ts = Some (v, r) \<Longrightarrow> length r < length ts"
  using parse_shorter_all [of n] by blast

lemma parse_fuel_all:
  "(\<forall>ts m. length ts + length ts < n \<longrightarrow> length ts + length ts < m \<longrightarrow>
        parse_value n ts = parse_value m ts)
   \<and> (\<forall>acc ts m. length ts + length ts + 1 < n \<longrightarrow> length ts + length ts + 1 < m \<longrightarrow>
        parse_members n acc ts = parse_members m acc ts)
   \<and> (\<forall>acc ts m. length ts + length ts + 1 < n \<longrightarrow> length ts + length ts + 1 < m \<longrightarrow>
        parse_elements n acc ts = parse_elements m acc ts)"
proof (induction n)
  case 0
  show ?case by simp
next
  case (Suc n)
  from Suc have IHv: "parse_value n ts = parse_value m ts"
    if "length ts + length ts < n" "length ts + length ts < m" for ts m
    using that by blast
  from Suc have IHm: "parse_members n acc ts = parse_members m acc ts"
    if "length ts + length ts + 1 < n" "length ts + length ts + 1 < m" for acc ts m
    using that by blast
  from Suc have IHe: "parse_elements n acc ts = parse_elements m acc ts"
    if "length ts + length ts + 1 < n" "length ts + length ts + 1 < m" for acc ts m
    using that by blast
  have v: "parse_value (Suc n) ts = parse_value (Suc m) ts"
    if "length ts + length ts < Suc n" "length ts + length ts < Suc m" for ts m
  proof (cases ts)
    case Nil
    then show ?thesis by simp
  next
    case (Cons t r)
    have pm: "parse_members n [] r = parse_members m [] r"
      by (rule IHm) (use that Cons in simp_all)
    have pe: "parse_elements n [] r = parse_elements m [] r"
      by (rule IHe) (use that Cons in simp_all)
    show ?thesis
    proof (cases r)
      case Nil
      with pm pe Cons show ?thesis by (cases t) simp_all
    next
      case (Cons t' r')
      with pm pe \<open>ts = t # r\<close> show ?thesis by (cases t; cases t') simp_all
    qed
  qed
  have rest: "parse_members n acc2 r'' = parse_members m acc2 r''
      \<and> parse_elements n acc3 r'' = parse_elements m acc3 r''"
    if "parse_value m r = Some (x, t # r'')" "length r + length r + 1 < Suc n"
      "length r + length r + 1 < Suc m"
    for m r x t r'' acc2 acc3
  proof -
    have "length (t # r'') < length r" using that(1) by (rule parse_value_shorter)
    then have "length r'' + length r'' + 1 < n" "length r'' + length r'' + 1 < m"
      using that(2,3) by simp_all
    then show ?thesis using IHm [where ts = r'' and m = m and acc = acc2] IHe [where ts = r'' and m = m and acc = acc3]
      by simp
  qed
  have m: "parse_members (Suc n) acc ts = parse_members (Suc m) acc ts"
    if "length ts + length ts + 1 < Suc n" "length ts + length ts + 1 < Suc m" for acc ts m
  proof (cases "\<exists>k r. ts = TStr k # TColon # r")
    case False
    show ?thesis
    proof (cases ts)
      case Nil
      then show ?thesis by simp
    next
      case t1: (Cons t r)
      show ?thesis
      proof (cases r)
        case Nil
        with t1 show ?thesis by (cases t) simp_all
      next
        case (Cons t' r')
        with t1 False show ?thesis by (cases t; cases t') simp_all
      qed
    qed
  next
    case True
    then obtain k r where ts: "ts = TStr k # TColon # r" by blast
    have pv: "parse_value n r = parse_value m r"
      by (rule IHv) (use that ts in simp_all)
    show ?thesis
    proof (cases "parse_value m r")
      case None
      with pv ts show ?thesis by simp
    next
      case (Some a)
      obtain x r' where a: "a = (x, r')" by (cases a)
      show ?thesis
      proof (cases r')
        case Nil
        then show ?thesis using pv Some a ts by simp
      next
        case (Cons t r'')
        have "parse_members n (AList.update k x acc) r'' = parse_members m (AList.update k x acc) r''"
          using rest [of m r x t r''] Some a Cons that ts by simp
        then show ?thesis using pv Some a ts Cons by (cases t) simp_all
      qed
    qed
  qed
  have e: "parse_elements (Suc n) acc ts = parse_elements (Suc m) acc ts"
    if "length ts + length ts + 1 < Suc n" "length ts + length ts + 1 < Suc m" for acc ts m
  proof -
    have pv: "parse_value n ts = parse_value m ts"
      by (rule IHv) (use that in simp_all)
    show ?thesis
    proof (cases "parse_value m ts")
      case None
      with pv show ?thesis by simp
    next
      case (Some a)
      obtain x r' where a: "a = (x, r')" by (cases a)
      show ?thesis
      proof (cases r')
        case Nil
        then show ?thesis using pv Some a by simp
      next
        case (Cons t r'')
        have "parse_elements n (acc @ [x]) r'' = parse_elements m (acc @ [x]) r''"
          using rest [of m ts x t r''] Some a Cons that by simp
        then show ?thesis using pv Some a Cons by (cases t) simp_all
      qed
    qed
  qed
  show ?case
  proof (intro conjI allI impI)
    fix ts :: "token list" and m
    assume a: "length ts + length ts < Suc n" "length ts + length ts < m"
    then obtain m' where "m = Suc m'" by (cases m) simp_all
    with a show "parse_value (Suc n) ts = parse_value m ts"
      using v [where ts = ts and m = m'] by simp
  next
    fix acc and ts :: "token list" and m
    assume a: "length ts + length ts + 1 < Suc n" "length ts + length ts + 1 < m"
    then obtain m' where "m = Suc m'" by (cases m) simp_all
    with a show "parse_members (Suc n) acc ts = parse_members m acc ts"
      using m [where ts = ts and m = m' and acc = acc] by simp
  next
    fix acc and ts :: "token list" and m
    assume a: "length ts + length ts + 1 < Suc n" "length ts + length ts + 1 < m"
    then obtain m' where "m = Suc m'" by (cases m) simp_all
    with a show "parse_elements (Suc n) acc ts = parse_elements m acc ts"
      using e [where ts = ts and m = m' and acc = acc] by simp
  qed
qed

text \<open>A bound above the one of \<open>json_loads\<close> gives the same result: the decoder is
  the unbounded recursive descent.\<close>

lemma parse_value_fuel:
  "length ts + length ts < n \<Longrightarrow> parse_value n ts = parse_value (Suc (length ts + length ts)) ts"
  using parse_fuel_all [of n] by blast

section \<open>Decoding the text of a rule\<close>

lemma emit_simps [simp]:
  "emit None r = None"
  "emit (Some xs) None = None"
  "emit (Some xs) (Some ys) = Some (xs @ ys)"
  by (simp_all add: emit_def)

lemma emit_Nil [simp]: "emit (Some []) r = r"
  by (cases r) (simp_all add: emit_def)


subsection \<open>\<^verbatim>\<open>str\<close> of an integer is read back as that integer\<close>

lemma of_char_digit_char: "d < 10 \<Longrightarrow> (of_char (digit_char d) :: nat) = 48 + d"
  by (simp add: digit_char_def)

lemma is_digit_digit_char: "d < 10 \<Longrightarrow> is_digit (digit_char d)"
  by (simp add: is_digit_def of_char_digit_char)


lemma nat_digits_all: "list_all is_digit (nat_digits n)"
  by (induction n rule: nat_digits.induct)
    (subst nat_digits.simps, simp add: is_digit_digit_char)










text \<open>A protocol number, as \<^verbatim>\<open>str\<close> prints it, is plain text.\<close>

lemma json_plain_digits: "list_all is_digit ds \<Longrightarrow> json_plain ds"
  by (induction ds) (auto simp: json_plain_def is_digit_def)

lemma json_plain_py_str_int: "json_plain (py_str_int i)"
  using json_plain_digits [OF nat_digits_all]
  by (simp add: py_str_int_def json_plain_def)

subsection \<open>What \<^verbatim>\<open>json.loads(rule_json_string)\<close> returns\<close>





section \<open>The readiness poller\<close>

lemma retry_loop_returns: "f s = (Inr x, s') \<Longrightarrow> retry_loop n f s = (Inr x, s')"
  by (cases n) simp_all

lemma IssueRetryableCommand_returns:
  "control_plane e tr c = (out, 0) \<Longrightarrow> IssueRetryableCommand e c tr = (Inr out, tr @ [c])"
  by (simp add: IssueRetryableCommand_def Retry_def retry_loop_returns IssueCommand_def)

text \<open>One answered query decides the shared body: it returns when the state is in the
  list and raises the assertion error otherwise; the state is stored either way.\<close>

lemma check_lifecycle_state_once:
  assumes "control_plane e tr c = (out, 0)"
    and "data_field out ''lifecycle-state'' = Inr st"
  shows "check_lifecycle_state e c status_list (self, tr) =
    (if py_in st status_list then Inr () else Inl AssertionError,
     (self\<lparr>status := st\<rparr>, tr @ [c]))"
  using assms
  by (simp add: check_lifecycle_state_def IssueRetryableCommand_returns then_do_def
      on_trace_def lift_def modify_def ret_def raise_def)

text \<open>The three wait methods without a decorator are that single query, on every control
  plane.\<close>

lemma WaitForInternetGatewayStatus_once:
  assumes "control_plane e tr (OCI_PREFIX e @ [Lit ''network'', Lit ''internet-gateway'',
       Lit ''get'', Fmt ''--ig-id '' (ig_id self) [], Lit (''--profile '' @ profile self)])
     = (out, 0)"
    and "data_field out ''lifecycle-state'' = Inr st"
  shows "WaitForInternetGatewayStatus e status_list (self, tr) =
    (if py_in st status_list then Inr () else Inl AssertionError,
     (self\<lparr>status := st\<rparr>, tr @ [OCI_PREFIX e @ [Lit ''network'', Lit ''internet-gateway'',
       Lit ''get'', Fmt ''--ig-id '' (ig_id self) [], Lit (''--profile '' @ profile self)]]))"
  using assms by (simp add: WaitForInternetGatewayStatus_def check_lifecycle_state_once)

lemma WaitForRouteTableStatus_once:
  assumes "control_plane e tr (OCI_PREFIX e @ [Lit ''network'', Lit ''route-table'',
       Lit ''get'', Fmt ''--rt-id '' (rt_id self) [], Lit (''--profile '' @ profile self)])
     = (out, 0)"
    and "data_field out ''lifecycle-state'' = Inr st"
  shows "WaitForRouteTableStatus e status_list (self, tr) =
    (if py_in st status_list then Inr () else Inl AssertionError,
     (self\<lparr>status := st\<rparr>, tr @ [OCI_PREFIX e @ [Lit ''network'', Lit ''route-table'',
       Lit ''get'', Fmt ''--rt-id '' (rt_id self) [], Lit (''--profile '' @ profile self)]]))"
  using assms by (simp add: WaitForRouteTableStatus_def check_lifecycle_state_once)

lemma WaitForSecurityListStatus_once:
  assumes "control_plane e tr (OCI_PREFIX e @ [Lit ''network'', Lit ''security-list'',
       Lit ''get'', Fmt ''--security-list-id '' (security_list_id self) [],
       Lit (''--profile '' @ profile self)]) = (out, 0)"
    and "data_field out ''lifecycle-state'' = Inr st"
  shows "WaitForSecurityListStatus e status_list (self, tr) =
    (if py_in st status_list then Inr () else Inl AssertionError,
     (self\<lparr>status := st\<rparr>, tr @ [OCI_PREFIX e @ [Lit ''network'', Lit ''security-list'',
       Lit ''get'', Fmt ''--security-list-id '' (security_list_id self) [],
       Lit (''--profile '' @ profile self)]]))"
  using assms by (simp add: WaitForSecurityListStatus_def check_lifecycle_state_once)

text \<open>
  C1. The claim is that each of the five wait methods queries again every 60 seconds
  until the state is in the expected set, so that one first observation outside the set
  is no failure. On a control plane that reports \<^verbatim>\<open>PROVISIONING\<close> to the first query and
  \<^verbatim>\<open>AVAILABLE\<close> to every later one, the waits for the internet gateway, the route table
  and the security list each issue one query and raise the assertion error: they carry
  no retry decorator.
\<close>

theorem undecorated_waits_fail_on_first_observation:
  "WaitForInternetGatewayStatus (sample_env True) [''AVAILABLE''] (sample_vcn, []) =
     (Inl AssertionError,
      (sample_vcn\<lparr>status := JStr ''PROVISIONING''\<rparr>,
       [[Lit ''oci'', Lit ''network'', Lit ''internet-gateway'', Lit ''get'',
         Fmt ''--ig-id '' (JStr ''ocid1.internetgateway'') [], Lit ''--profile zone-1'']]))
   \<and> WaitForRouteTableStatus (sample_env True) [''AVAILABLE''] (sample_vcn, []) =
     (Inl AssertionError,
      (sample_vcn\<lparr>status := JStr ''PROVISIONING''\<rparr>,
       [[Lit ''oci'', Lit ''network'', Lit ''route-table'', Lit ''get'',
         Fmt ''--rt-id '' (JStr ''ocid1.routetable'') [], Lit ''--profile zone-1'']]))
   \<and> WaitForSecurityListStatus (sample_env True) [''AVAILABLE''] (sample_vcn, []) =
     (Inl AssertionError,
      (sample_vcn\<lparr>status := JStr ''PROVISIONING''\<rparr>,
       [[Lit ''oci'', Lit ''network'', Lit ''security-list'', Lit ''get'',
         Fmt ''--security-list-id '' (JStr ''ocid1.securitylist'') [],
         Lit ''--profile zone-1'']]))"
  by code_simp

text \<open>On the same control plane the decorated wait for the virtual network queries a
  second time and returns.\<close>

lemma WaitForVcnStatus_queries_again:
  "WaitForVcnStatus (sample_env True) [''AVAILABLE''] (sample_vcn, []) =
     (Inr (),
      (sample_vcn\<lparr>status := JStr ''AVAILABLE''\<rparr>,
       [[Lit ''oci'', Lit ''network'', Lit ''vcn'', Lit ''get'',
         Fmt ''--vcn-id '' (JStr ''ocid1.vcn'') [], Lit ''--profile zone-1''],
        [Lit ''oci'', Lit ''network'', Lit ''vcn'', Lit ''get'',
         Fmt ''--vcn-id '' (JStr ''ocid1.vcn'') [], Lit ''--profile zone-1'']]))"
  by code_simp

section \<open>The creation sequence\<close>

text \<open>
  C2. The claim is that every wait of the creation sequence is given the five recognized
  states. The first wait of the sequence is given the list \<^verbatim>\<open>["AVAILABLE"]\<close>, which is
  not the set \<^verbatim>\<open>VCN_CREATE_STATUSES\<close>.
\<close>

theorem Create_wait_not_given_recognized_states:
  "Call_WaitForVcnStatus [''AVAILABLE''] \<in> set (Create_steps True)
   \<and> wait_statuses (Call_WaitForVcnStatus [''AVAILABLE'']) = Some [''AVAILABLE'']
   \<and> set [''AVAILABLE''] \<noteq> VCN_CREATE_STATUSES"
  by (auto simp: Create_steps_def VCN_CREATE_STATUSES_def)

text \<open>
  C2, as the code has it. The creation sequence of a managed network has six waits, for
  the virtual network, the subnet, the internet gateway, the route table and twice the
  security list, and each is given the list \<^verbatim>\<open>["AVAILABLE"]\<close>.
\<close>

theorem Create_waits_given_AVAILABLE:
  "List.map_filter wait_statuses (Create_steps True) =
     [[''AVAILABLE''], [''AVAILABLE''], [''AVAILABLE''], [''AVAILABLE''], [''AVAILABLE''],
      [''AVAILABLE'']]"
  by (simp add: Create_steps_def List.map_filter_simps)

text \<open>
  C6. The claim is that \<^verbatim>\<open>Create\<close> on a network built with \<^verbatim>\<open>FLAGS.oci_use_vcn\<close> false
  looks up the network and its first subnet and completes. The constructor assigns
  \<^verbatim>\<open>self.vcn\<close> only when the flag is true, so the first statement of that branch raises
  the attribute error, in the body and in the decorated method: no command is issued and
  no identifier is set.
\<close>

theorem Create_on_unmanaged_network_raises:
  "vcn unmanaged_network = Unset
   \<and> OciNetwork_Create_body (sample_env False) (unmanaged_network, []) =
       (Inl AttributeError, (unmanaged_network, []))
   \<and> OciNetwork_Create (sample_env False) (unmanaged_network, []) =
       (Inl AttributeError, (unmanaged_network, []))"
  by code_simp

section \<open>The rule set editor\<close>

text \<open>With the current rules fetched and the text of the new rule decoded, the method
  issues the fetch and then one update that carries the fetched rules followed by the
  new rule.\<close>

lemmas prog_defs = then_do_def on_trace_def ret_def raise_def lift_def modify_def on_vcn_def
  IssueCommand_def

lemma AddSecurityListIngressRule_appends:
  assumes "control_plane e tr (OCI_PREFIX e @ [Lit ''network'', Lit ''security-list'',
       Lit ''get'', Fmt ''--security-list-id '' (security_list_id self) [],
       Lit (''--profile '' @ profile self)]) = (out, rc)"
    and "data_field out ''ingress-security-rules'' = Inr (JArr rules)"
    and "json_loads (rule_json_string protocol start_port end_port source_range protocol_type
       protocol_code) = Inr rule"
  shows "AddSecurityListIngressRule e protocol start_port end_port source_range protocol_type
       protocol_code (self, tr) =
    (Inr (), (self, tr @
      [OCI_PREFIX e @ [Lit ''network'', Lit ''security-list'', Lit ''get'',
         Fmt ''--security-list-id '' (security_list_id self) [],
         Lit (''--profile '' @ profile self)],
       OCI_PREFIX e @ [Lit ''network'', Lit ''security-list'', Lit ''update'',
         Fmt ''--security-list-id '' (security_list_id self) [], Lit ''--force'',
         FmtDumps (''--ingress-security-rules '' @ [CHR 0x27]) (JArr (rules @ [rule]))
           [CHR 0x27],
         Lit (''--profile '' @ profile self)]]))"
  using assms
  by (simp add: AddSecurityListIngressRule_def GetSecurityListFromId_def prog_defs
      split: prod.splits)

text \<open>
  C3. The claim is that for every rule spec the method writes back the current rules
  with one new rule appended. For protocol \<^verbatim>\<open>"1"\<close> with an ICMP type and no code, on a
  security list without rules, the method fetches the rules and raises the decode error:
  no update is issued.
\<close>

theorem AddSecurityListIngressRule_type_only_writes_nothing:
  "AddSecurityListIngressRule (sample_env True) ''1'' (Some 22) None None (Some 8) None
     (sample_vcn, []) =
     (Inl JSONDecodeError,
      (sample_vcn,
       [[Lit ''oci'', Lit ''network'', Lit ''security-list'', Lit ''get'',
         Fmt ''--security-list-id '' (JStr ''ocid1.securitylist'') [],
         Lit ''--profile zone-1'']]))"
  by code_simp

text \<open>
  C4. The claim is that an ICMP rule with only one of type and code carries null ICMP
  options and that a rule is constructed in every case. With the type alone, or the code
  alone, the text of the rule does not decode.
\<close>

theorem icmp_rule_with_type_or_code_alone_undecodable:
  "json_loads (rule_json_string ''1'' (Some 22) None None (Some 8) None) = Inl JSONDecodeError
   \<and> json_loads (rule_json_string ''1'' (Some 22) None None None (Some 0)) =
       Inl JSONDecodeError"
  by code_simp




text \<open>
  C10. The claim is that a rule for a protocol other than ICMP has the port range
  whenever a start port is supplied, also for the start port 0. With protocol \<^verbatim>\<open>"6"\<close>
  and start port 0 the rule has null TCP options: \<^verbatim>\<open>if start_port:\<close> takes 0 for absent.
\<close>

theorem start_port_zero_gives_no_port_range:
  "json_loads (rule_json_string ''6'' (Some 0) None None None None) =
     Inr (JObj [(''source'', JStr ''0.0.0.0/0''), (''icmp-options'', JNull),
       (''protocol'', JStr ''6''), (''is-stateless'', JBool False), (''tcp-options'', JNull),
       (''udp-options'', JNull)])"
  by code_simp

section \<open>The firewall\<close>

text \<open>When \<^verbatim>\<open>vm.network.vcn\<close> is \<^verbatim>\<open>None\<close> both methods return without a command.\<close>

lemma AllowPort_vcn_None:
  "vcn network = PyNone \<Longrightarrow>
   AllowPort e start_port end_port source_range (network, tr) = (Inr (), (network, tr))"
  by (simp add: AllowPort_def)

lemma AllowIcmp_vcn_None:
  "vcn network = PyNone \<Longrightarrow>
   AllowIcmp e protocol_type protocol_code source_range (network, tr) =
     (Inr (), (network, tr))"
  by (simp add: AllowIcmp_def)

text \<open>
  C7. The claim is that on a vm whose network has no stack \<^verbatim>\<open>AllowPort\<close> and
  \<^verbatim>\<open>AllowIcmp\<close> issue no command and raise nothing. The network that the constructor
  builds without a stack has no attribute \<^verbatim>\<open>vcn\<close>, and the guard of both methods reads
  it: both raise the attribute error.
\<close>

theorem Allow_on_unmanaged_network_raises:
  "AllowPort (sample_env False) (Some 8080) (Some 8090) (Some ''10.0.0.0/8'')
     (unmanaged_network, []) = (Inl AttributeError, (unmanaged_network, []))
   \<and> AllowIcmp (sample_env False) None None None (unmanaged_network, []) =
       (Inl AttributeError, (unmanaged_network, []))"
  by code_simp

section \<open>Teardown\<close>

lemma vcn_update_same [simp]: "vcn self = Obj v \<Longrightarrow> self\<lparr>vcn := Obj v\<rparr> = self"
  by simp

lemma OciNetwork_Delete_managed:
  assumes "use_vcn self" "vcn self = Obj v"
  shows "OciNetwork_Delete e (self, tr) = (Inr (), (self, tr @
    [OCI_PREFIX e @ [Lit ''network'', Lit ''route-table'', Lit ''update'',
       Fmt ''--rt-id '' (rt_id v) [], Lit ''--force'', Lit (''--route-rules '[]'' @ [CHR 0x27]),
       Lit (''--profile '' @ profile v)],
     OCI_PREFIX e @ [Lit ''network'', Lit ''internet-gateway'', Lit ''delete'',
       Fmt ''--ig-id '' (ig_id v) [], Lit (''--profile '' @ profile v), Lit ''--force''],
     OCI_PREFIX e @ [Lit ''network'', Lit ''subnet'', Lit ''delete'',
       Fmt ''--subnet-id '' (subnet_id v) [], Lit (''--profile '' @ profile v),
       Lit ''--force''],
     OCI_PREFIX e @ [Lit ''network'', Lit ''vcn'', Lit ''delete'',
       Fmt ''--vcn-id '' (vcn_id v) [], Lit (''--profile '' @ profile v), Lit ''--force'']]))"
  using assms
  by (simp add: OciNetwork_Delete_def Delete_steps_def ClearRouteTable_def
      DeleteInternetGateway_def DeleteSubnet_def BaseResource_Delete_def OciVcn_Delete_impl_def
      prog_defs split: prod.splits)

text \<open>
  C8. The claim is that \<^verbatim>\<open>Delete\<close> clears the five identifiers of a managed stack to
  null. After \<^verbatim>\<open>Delete\<close> on a stack with its five identifiers set, all five still hold
  their values.
\<close>

theorem Delete_leaves_identifiers_set:
  "stack_ids (fst (snd (OciNetwork_Delete (sample_env True) (sample_network, [])))) =
     [JStr ''ocid1.vcn'', JStr ''ocid1.subnet'', JStr ''ocid1.internetgateway'',
      JStr ''ocid1.routetable'', JStr ''ocid1.securitylist'']
   \<and> stack_ids (fst (snd (OciNetwork_Delete (sample_env True) (sample_network, [])))) \<noteq>
     [JNull, JNull, JNull, JNull, JNull]"
  by code_simp

text \<open>
  C8, as the code has it. \<^verbatim>\<open>Delete\<close> changes none of the five identifiers: after it they
  hold the values they held before, on every network and every control plane.
\<close>

theorem Delete_keeps_identifiers:
  "stack_ids (fst (snd (OciNetwork_Delete e (self, tr)))) = stack_ids self"
proof (cases "use_vcn self")
  case False
  then show ?thesis by (simp add: OciNetwork_Delete_def Delete_steps_def ret_def)
next
  case True
  show ?thesis
  proof (cases "vcn self")
    case (Obj v)
    with True show ?thesis using OciNetwork_Delete_managed [of self v e tr] by simp
  next
    case Unset
    with True show ?thesis
      by (simp add: OciNetwork_Delete_def Delete_steps_def prog_defs)
  next
    case PyNone
    with True show ?thesis
      by (simp add: OciNetwork_Delete_def Delete_steps_def prog_defs)
  qed
qed

text \<open>
  C9. \<^verbatim>\<open>Delete\<close> on a managed stack returns after exactly four commands, in this order:
  the update of the route table to the empty rule list, then the deletes of the internet
  gateway, of the subnet and of the virtual network, each with \<^verbatim>\<open>--force\<close>. No query of
  a lifecycle state is among them, and the stack itself is unchanged.
\<close>

theorem Delete_issues_four_forced_commands:
  assumes "use_vcn self" "vcn self = Obj v"
  shows "OciNetwork_Delete e (self, tr) = (Inr (), (self, tr @
    [OCI_PREFIX e @ [Lit ''network'', Lit ''route-table'', Lit ''update'',
       Fmt ''--rt-id '' (rt_id v) [], Lit ''--force'', Lit (''--route-rules '[]'' @ [CHR 0x27]),
       Lit (''--profile '' @ profile v)],
     OCI_PREFIX e @ [Lit ''network'', Lit ''internet-gateway'', Lit ''delete'',
       Fmt ''--ig-id '' (ig_id v) [], Lit (''--profile '' @ profile v), Lit ''--force''],
     OCI_PREFIX e @ [Lit ''network'', Lit ''subnet'', Lit ''delete'',
       Fmt ''--subnet-id '' (subnet_id v) [], Lit (''--profile '' @ profile v),
       Lit ''--force''],
     OCI_PREFIX e @ [Lit ''network'', Lit ''vcn'', Lit ''delete'',
       Fmt ''--vcn-id '' (vcn_id v) [], Lit (''--profile '' @ profile v), Lit ''--force'']]))"
  using assms by (rule OciNetwork_Delete_managed)

theorem Delete_issues_four_forced_commands_witness:
  "use_vcn sample_network \<and> vcn sample_network = Obj sample_vcn
   \<and> OciNetwork_Delete (sample_env True) (sample_network, []) = (Inr (), (sample_network,
    [[Lit ''oci'', Lit ''network'', Lit ''route-table'', Lit ''update'',
       Fmt ''--rt-id '' (JStr ''ocid1.routetable'') [], Lit ''--force'',
       Lit (''--route-rules '[]'' @ [CHR 0x27]), Lit ''--profile zone-1''],
     [Lit ''oci'', Lit ''network'', Lit ''internet-gateway'', Lit ''delete'',
       Fmt ''--ig-id '' (JStr ''ocid1.internetgateway'') [], Lit ''--profile zone-1'',
       Lit ''--force''],
     [Lit ''oci'', Lit ''network'', Lit ''subnet'', Lit ''delete'',
       Fmt ''--subnet-id '' (JStr ''ocid1.subnet'') [], Lit ''--profile zone-1'',
       Lit ''--force''],
     [Lit ''oci'', Lit ''network'', Lit ''vcn'', Lit ''delete'',
       Fmt ''--vcn-id '' (JStr ''ocid1.vcn'') [], Lit ''--profile zone-1'',
       Lit ''--force'']]))"
proof -
  have u: "use_vcn sample_network" by code_simp
  have v: "vcn sample_network = Obj sample_vcn" by code_simp
  show ?thesis
    using u v Delete_issues_four_forced_commands [OF u v, of "sample_env True" "[]"]
    by (simp add: sample_env_def sample_vcn_def OciVcn_init_def)
qed

end
